theory Spec2Isabelle
  imports Complex_Main "HOL-Library.List_Lexorder" "HOL-Library.Char_ord"
    "HOL-Library.Product_Lexorder"
begin

section \<open>Data frames\<close>

text \<open>
  The pages work on pandas data frames loaded from CSV files. A frame is modelled
  column-wise, as pandas stores it: an association list from column name to column.
  A column is either numeric (float64, where \<open>None\<close> is NaN, the missing value) or
  of object dtype (strings, where \<open>None\<close> is a missing entry). Python floats are
  idealised as \<open>real\<close>: rounding and overflow of IEEE arithmetic are not modelled.
\<close>

datatype column = Numeric "real option list" | Object "string option list"

type_synonym dataframe = "(string \<times> column) list"

text \<open>A group label: the value of the grouping column shared by the rows of a group.\<close>

datatype cell = Num real | Str string

text \<open>
  How a run of a page script ends without a chart: one of the guards of the pages
  (\<open>st.warning\<close> followed by \<open>st.stop()\<close>: no metric selected, no experience level
  selected, no skill with enough postings), or a Python exception that nothing in the
  script catches.
\<close>

datatype error = NoMetricsSelected | NoLevelSelected | NotEnoughData | KeyError string | TypeError

text \<open>Only the guards report to the user; an exception aborts the run of the script.\<close>

fun uncaught :: "error \<Rightarrow> bool" where
  "uncaught (KeyError c) = True"
| "uncaught TypeError = True"
| "uncaught e = False"

text \<open>\<open>df[name]\<close>: a KeyError when the frame has no such column.\<close>

definition getitem :: "dataframe \<Rightarrow> string \<Rightarrow> error + column" where
  "getitem df name = (case map_of df name of None \<Rightarrow> Inl (KeyError name) | Some c \<Rightarrow> Inr c)"

fun dropna :: "'a option list \<Rightarrow> 'a list" where
  "dropna [] = []"
| "dropna (None # xs) = dropna xs"
| "dropna (Some x # xs) = x # dropna xs"

fun keys_of :: "column \<Rightarrow> cell option list" where
  "keys_of (Numeric xs) = map (map_option Num) xs"
| "keys_of (Object xs) = map (map_option Str) xs"

text \<open>
  \<open>groupby\<close> with its defaults (\<open>sort=True\<close>, \<open>dropna=True\<close>): the groups are the
  distinct non-missing values of the key column, in ascending order.
\<close>

fun group_labels :: "column \<Rightarrow> cell list" where
  "group_labels (Numeric xs) = map Num (sort (remdups (dropna xs)))"
| "group_labels (Object xs) = map Str (sort (remdups (dropna xs)))"

text \<open>The entries of a value column on the rows of group \<open>g\<close>.\<close>

definition group_values :: "'k \<Rightarrow> 'k option list \<Rightarrow> 'a list \<Rightarrow> 'a list" where
  "group_values g keys vals = map snd (filter (\<lambda>kv. fst kv = Some g) (zip keys vals))"

text \<open>\<open>mean\<close> skips NaN; the mean of no value at all is NaN.\<close>

definition mean :: "real list \<Rightarrow> real option" where
  "mean xs = (if xs = [] then None else Some (sum_list xs / real (length xs)))"

fun nunique :: "cell \<Rightarrow> cell option list \<Rightarrow> column \<Rightarrow> nat" where
  "nunique g keys (Numeric vs) = length (remdups (dropna (group_values g keys vs)))"
| "nunique g keys (Object vs) = length (remdups (dropna (group_values g keys vs)))"

section \<open>Multidimensional comparison of job roles\<close>

subsection \<open>Aggregation\<close>

text \<open>
  Step 1 of the loop body: one row (group, raw value) per group of
  \<open>df.groupby("job_title")\<close>. The \<open>groupby\<close> is evaluated first, then the column
  selection; \<open>size\<close> ignores the column. Averaging a column of strings is a TypeError.
\<close>

definition aggregation ::
  "dataframe \<Rightarrow> string option \<Rightarrow> string \<Rightarrow> error + (cell \<times> real option) list" where
  "aggregation df col_name agg_func =
     (case getitem df ''job_title'' of
        Inl e \<Rightarrow> Inl e
      | Inr kc \<Rightarrow>
          if agg_func = ''size'' then
            Inr (map (\<lambda>g. (g, Some (real (length (filter (\<lambda>k. k = Some g) (keys_of kc))))))
                   (group_labels kc))
          else
            (case col_name of
               None \<Rightarrow> Inl (KeyError ''None'')
             | Some c \<Rightarrow>
                 (case getitem df c of
                    Inl e \<Rightarrow> Inl e
                  | Inr vc \<Rightarrow>
                      if agg_func = ''nunique'' then
                        Inr (map (\<lambda>g. (g, Some (real (nunique g (keys_of kc) vc))))
                               (group_labels kc))
                      else
                        (case vc of
                           Object ss \<Rightarrow> Inl TypeError
                         | Numeric vs \<Rightarrow>
                             Inr (map (\<lambda>g. (g, mean (dropna (group_values g (keys_of kc) vs))))
                                    (group_labels kc))))))"

subsection \<open>Normalization\<close>

text \<open>\<open>Series.min()\<close> and \<open>Series.max()\<close> skip NaN and are NaN when nothing is left.\<close>

definition series_min :: "real option list \<Rightarrow> real option" where
  "series_min raws = (case dropna raws of [] \<Rightarrow> None | x # xs \<Rightarrow> Some (fold min xs x))"

definition series_max :: "real option list \<Rightarrow> real option" where
  "series_max raws = (case dropna raws of [] \<Rightarrow> None | x # xs \<Rightarrow> Some (fold max xs x))"

definition epsilon :: real where
  "epsilon = 0.02"

text \<open>NaN propagates through subtraction and division.\<close>

fun nan_sub :: "real option \<Rightarrow> real option \<Rightarrow> real option" where
  "nan_sub (Some a) (Some b) = Some (a - b)"
| "nan_sub a b = None"

text \<open>
  The division of step 2 is only reached with a divisor different from zero, so the
  quotient of the model is the quotient of the code.
\<close>

fun nan_div :: "real option \<Rightarrow> real option \<Rightarrow> real option" where
  "nan_div (Some a) (Some b) = Some (a / b)"
| "nan_div a b = None"

text \<open>\<open>clip(lower=epsilon)\<close> leaves NaN as it is.\<close>

definition clip_lower :: "real \<Rightarrow> real option \<Rightarrow> real option" where
  "clip_lower lo v = map_option (max lo) v"

text \<open>
  Step 2 of the loop body, on the column \<open>raw_value\<close>. The comparison
  \<open>max_val - min_val == 0\<close> is false when the difference is NaN. In the tied branch the
  scalar 1.0 is assigned to every row of the column.
\<close>

definition normalization :: "real option list \<Rightarrow> real option list" where
  "normalization raws =
     (let min_val = series_min raws;
          max_val = series_max raws;
          normalized =
            (if nan_sub max_val min_val = Some 0 then map (\<lambda>r. Some 1) raws
             else map (\<lambda>r. nan_div (nan_sub r min_val) (nan_sub max_val min_val)) raws)
      in map (clip_lower epsilon) normalized)"

subsection \<open>The comparison table\<close>

record plot_row =
  job_title :: cell
  raw_value :: "real option"
  normalized_value :: "real option"
  metric :: string

text \<open>
  The metric configuration (label, column, aggregation; the colours are left out). The
  column of the last entry is replaced when the frame names it by its label.
\<close>

definition METRICS_CONFIG :: "dataframe \<Rightarrow> (string \<times> string option \<times> string) list" where
  "METRICS_CONFIG df =
     [(''Average Salary (USD)'', Some ''salary_usd'', ''mean''),
      (''Job Count'', None, ''size''),
      (''Years of Experience'', Some ''years_experience'', ''mean''),
      (''Benefits Score'', Some ''benefits_score'', ''mean''),
      (''Remote Work Ratio (%)'',
         Some (if ''Remote Work Ratio (%)'' \<in> set (map fst df) \<and> ''remote_ratio'' \<notin> set (map fst df)
               then ''Remote Work Ratio (%)'' else ''remote_ratio''),
         ''mean'')]"

definition temp_df :: "string \<Rightarrow> (cell \<times> real option) list \<Rightarrow> plot_row list" where
  "temp_df m agg =
     map (\<lambda>(gr, n). \<lparr>job_title = fst gr, raw_value = snd gr, normalized_value = n, metric = m\<rparr>)
       (zip agg (normalization (map snd agg)))"

text \<open>The loop over the selected metrics; an exception ends it.\<close>

fun plot_data :: "dataframe \<Rightarrow> string list \<Rightarrow> error + plot_row list list" where
  "plot_data df [] = Inr []"
| "plot_data df (m # rest) =
     (case map_of (METRICS_CONFIG df) m of
        None \<Rightarrow> Inl (KeyError m)
      | Some (col_name, agg_func) \<Rightarrow>
          (case aggregation df col_name agg_func of
             Inl e \<Rightarrow> Inl e
           | Inr agg \<Rightarrow>
               (case plot_data df rest of
                  Inl e \<Rightarrow> Inl e
                | Inr frames \<Rightarrow> Inr (temp_df m agg # frames))))"

text \<open>
  The whole of sections 4 and 5 of the page: the guard on an empty selection, the loop,
  \<open>pd.concat\<close>. The specification calls this \<open>build_comparison_table\<close>.
\<close>

definition plot_df :: "dataframe \<Rightarrow> string list \<Rightarrow> error + plot_row list" where
  "plot_df df selected_metrics =
     (if selected_metrics = [] then Inl NoMetricsSelected
      else (case plot_data df selected_metrics of
              Inl e \<Rightarrow> Inl e
            | Inr frames \<Rightarrow> Inr (concat frames)))"

section \<open>AI skills landscape: demand versus salary\<close>

text \<open>
  The page exists twice: \<open>Root\<close> is \<open>pages/AI Skills Landscape ...\<close>,
  \<open>ProjectStreamlit\<close> the one under \<open>Data-Visualization---ProjectStreamlit/pages\<close>. Both
  work on a frame with one row per posting and required skill (the first explodes the
  list of skills when it loads the file, the second after the filter on the experience
  level, which selects whole postings; so the model starts from the exploded rows).
  A row has the four columns that the pages read; loading the file, and a file without
  these columns, are outside the model.
\<close>

datatype page = Root | ProjectStreamlit

record job =
  skills_list :: "string option"
  experience_level :: "string option"
  salary_usd :: "real option"
  job_id :: "string option"

text \<open>
  The experience levels offered in the sidebar. \<open>Root\<close> drops missing levels before
  sorting; the other page sorts what \<open>unique()\<close> returns, and Python cannot compare
  NaN with a string.
\<close>

fun all_levels :: "page \<Rightarrow> job list \<Rightarrow> error + string option list" where
  "all_levels Root df = Inr (map Some (sort (remdups (dropna (map experience_level df)))))"
| "all_levels ProjectStreamlit df =
     (let u = remdups (map experience_level df)
      in if None \<in> set u \<and> 1 < length u then Inl TypeError
         else if None \<in> set u then Inr u
         else Inr (map Some (sort (dropna u))))"

text \<open>The \<open>replace\<close> of the long skill names.\<close>

definition rename_skill :: "string \<Rightarrow> string" where
  "rename_skill s =
     (if s = ''Data Visualization'' then ''Data Viz''
      else if s = ''Machine Learning'' then ''ML''
      else if s = ''Natural Language Processing'' then ''NLP''
      else if s = ''Computer Vision'' then ''CV''
      else s)"

text \<open>\<open>round(0)\<close> of numpy rounds a half to the even neighbour.\<close>

definition round_half_even :: "real \<Rightarrow> real" where
  "round_half_even x =
     (let f = \<lfloor>x\<rfloor>; d = x - of_int f
      in of_int (if d < 1 / 2 then f else if 1 / 2 < d then f + 1
                 else if even f then f else f + 1))"

record skill_stat =
  skill_name :: string
  Average_Salary :: "real option"
  Job_Count :: nat

text \<open>
  The column counted for \<open>Job_Count\<close>: \<open>count\<close> counts the non-null entries of
  \<open>salary_usd\<close> on the one page, of \<open>job_id\<close> on the other.
\<close>

fun counted :: "page \<Rightarrow> job list \<Rightarrow> bool list" where
  "counted Root df = map (\<lambda>r. salary_usd r \<noteq> None) df"
| "counted ProjectStreamlit df = map (\<lambda>r. job_id r \<noteq> None) df"

text \<open>The key column of \<open>groupby('skills_list')\<close>: the skills after the renaming.\<close>

definition skill_keys :: "job list \<Rightarrow> string option list" where
  "skill_keys df = map (\<lambda>r. map_option rename_skill (skills_list r)) df"

text \<open>\<open>Job_Count\<close> of a skill: the non-null entries of the counted column on its rows.\<close>

definition job_count :: "page \<Rightarrow> job list \<Rightarrow> string \<Rightarrow> nat" where
  "job_count p df g = length (filter id (group_values g (skill_keys df) (counted p df)))"

text \<open>
  \<open>groupby('skills_list').agg(...)\<close> on the renamed skills, the filter
  \<open>Job_Count >= 10\<close> and the rounding of the average salary.
\<close>

definition skill_stats :: "page \<Rightarrow> job list \<Rightarrow> skill_stat list" where
  "skill_stats p filtered_df =
     (let grouped = map (\<lambda>g.
              \<lparr>skill_name = g,
               Average_Salary =
                 mean (dropna (group_values g (skill_keys filtered_df)
                                 (map salary_usd filtered_df))),
               Job_Count = job_count p filtered_df g\<rparr>)
             (sort (remdups (dropna (skill_keys filtered_df))))
      in map (\<lambda>r. r\<lparr>Average_Salary := map_option round_half_even (Average_Salary r)\<rparr>)
           (filter (\<lambda>r. 10 \<le> Job_Count r) grouped))"

text \<open>
  The values of the column \<open>Score\<close>: a number, an infinity or NaN. A division by a
  maximum that is zero gives an infinity or NaN in floating point, and no exception.
\<close>

datatype flt = Fin real | PosInf | NegInf | NaN

fun fdiv :: "real option \<Rightarrow> real option \<Rightarrow> flt" where
  "fdiv (Some a) (Some b) =
     (if b \<noteq> 0 then Fin (a / b) else if a = 0 then NaN else if 0 < a then PosInf else NegInf)"
| "fdiv a b = NaN"

fun fadd :: "flt \<Rightarrow> flt \<Rightarrow> flt" where
  "fadd (Fin a) (Fin b) = Fin (a + b)"
| "fadd NaN y = NaN"
| "fadd x NaN = NaN"
| "fadd PosInf NegInf = NaN"
| "fadd NegInf PosInf = NaN"
| "fadd PosInf y = PosInf"
| "fadd x PosInf = PosInf"
| "fadd NegInf y = NegInf"
| "fadd x NegInf = NegInf"

definition Score_column :: "skill_stat list \<Rightarrow> flt list" where
  "Score_column stats =
     (let salary_max = series_max (map Average_Salary stats);
          count_max = series_max (map (\<lambda>r. Some (real (Job_Count r))) stats)
      in map (\<lambda>r. fadd (fdiv (Average_Salary r) salary_max)
                     (fdiv (Some (real (Job_Count r))) count_max)) stats)"

text \<open>
  \<open>nlargest(n, 'Score')\<close> of pandas (with \<open>keep='first'\<close>): the first \<open>n\<close> rows in
  descending order of the score, rows with equal scores in their order in the frame, rows
  with a NaN score last. \<open>rank\<close> is smaller for a larger score, and \<open>sort_key\<close> is a
  stable sort. The pages use the names of the selected rows as a set only.
\<close>

fun rank :: "flt \<Rightarrow> nat \<times> real" where
  "rank PosInf = (0, 0)"
| "rank (Fin x) = (1, - x)"
| "rank NegInf = (2, 0)"
| "rank NaN = (3, 0)"

definition nlargest :: "nat \<Rightarrow> ('a \<times> flt) list \<Rightarrow> ('a \<times> flt) list" where
  "nlargest n rows = take n (sort_key (\<lambda>r. rank (snd r)) rows)"

record labelled = skill_stat +
  Score :: flt
  Label :: string

definition num_labels :: nat where
  "num_labels = 30"

text \<open>
  The block "Label and Score Logic", with the number of labels as a parameter (the pages
  pass \<open>num_labels\<close>): a row keeps its name as label when the name is among the names of
  the rows that \<open>nlargest\<close> selects.
\<close>

definition label_skills :: "nat \<Rightarrow> skill_stat list \<Rightarrow> labelled list" where
  "label_skills n stats =
     (let rows = zip stats (Score_column stats);
          top_skills = map (\<lambda>r. skill_name (fst r)) (nlargest n rows)
      in map (\<lambda>r. \<lparr>skill_name = skill_name (fst r), Average_Salary = Average_Salary (fst r),
                    Job_Count = Job_Count (fst r), Score = snd r,
                    Label = (if skill_name (fst r) \<in> set top_skills then skill_name (fst r)
                             else [])\<rparr>) rows)"

text \<open>
  The page up to the table that is plotted. \<open>isin\<close> matches NaN with NaN. Only
  \<open>Root\<close> stops when no skill has ten postings; the other page goes on with an empty
  table and plots nothing.
\<close>

definition skills_page ::
  "page \<Rightarrow> job list \<Rightarrow> bool \<Rightarrow> string option list \<Rightarrow> error + labelled list" where
  "skills_page p df check_all selected_levels_manual =
     (case all_levels p df of
        Inl e \<Rightarrow> Inl e
      | Inr levels \<Rightarrow>
          (let final_selection = (if check_all then levels else selected_levels_manual)
           in if final_selection = [] then Inl NoLevelSelected
              else
                (let filtered_df = filter (\<lambda>r. experience_level r \<in> set final_selection) df;
                     stats = skill_stats p filtered_df
                 in if p = Root \<and> stats = [] then Inl NotEnoughData
                    else Inr (label_skills num_labels stats))))"


text \<open>A normalized value that is a number of the interval from 0.02 to 1.\<close>

definition within_bounds :: "real option \<Rightarrow> bool" where
  "within_bounds v = (case v of None \<Rightarrow> False | Some y \<Rightarrow> 0.02 \<le> y \<and> y \<le> 1)"

section \<open>Properties of the normalization\<close>

lemma set_dropna: "set (dropna xs) = {x. Some x \<in> set xs}"
  by (induction xs rule: dropna.induct) auto

lemma fold_min_Min: "fold min xs (x::real) = Min (set (x # xs))"
  using Min.set_eq_fold [of x xs] by simp

lemma fold_max_Max: "fold max xs (x::real) = Max (set (x # xs))"
  using Max.set_eq_fold [of x xs] by simp

lemma series_min_eq:
  "series_min raws = (if dropna raws = [] then None else Some (Min (set (dropna raws))))"
  by (cases "dropna raws") (simp_all add: series_min_def fold_min_Min)

lemma series_max_eq:
  "series_max raws = (if dropna raws = [] then None else Some (Max (set (dropna raws))))"
  by (cases "dropna raws") (simp_all add: series_max_def fold_max_Max)

lemma series_min_le:
  assumes "series_min raws = Some mn" and "Some x \<in> set raws"
  shows "mn \<le> x"
proof -
  have "x \<in> set (dropna raws)" using assms(2) by (simp add: set_dropna)
  moreover from this have "dropna raws \<noteq> []" by auto
  ultimately show ?thesis using assms(1) by (auto simp: series_min_eq)
qed

lemma series_max_ge:
  assumes "series_max raws = Some mx" and "Some x \<in> set raws"
  shows "x \<le> mx"
proof -
  have "x \<in> set (dropna raws)" using assms(2) by (simp add: set_dropna)
  moreover from this have "dropna raws \<noteq> []" by auto
  ultimately show ?thesis using assms(1) by (auto simp: series_max_eq)
qed

lemma series_min_defined:
  assumes "Some x \<in> set raws"
  shows "\<exists>mn. series_min raws = Some mn \<and> mn \<le> x"
proof -
  have "x \<in> set (dropna raws)" using assms by (simp add: set_dropna)
  then have "dropna raws \<noteq> []" by auto
  then obtain mn where "series_min raws = Some mn" by (simp add: series_min_eq)
  with series_min_le [OF _ assms] show ?thesis by blast
qed

lemma series_max_defined:
  assumes "Some x \<in> set raws"
  shows "\<exists>mx. series_max raws = Some mx \<and> x \<le> mx"
proof -
  have "x \<in> set (dropna raws)" using assms by (simp add: set_dropna)
  then have "dropna raws \<noteq> []" by auto
  then obtain mx where "series_max raws = Some mx" by (simp add: series_max_eq)
  with series_max_ge [OF _ assms] show ?thesis by blast
qed

lemma length_normalization: "length (normalization raws) = length raws"
  by (simp add: normalization_def Let_def)

lemma normalization_nth:
  assumes "i < length raws"
  shows "normalization raws ! i =
     clip_lower epsilon
       (if nan_sub (series_max raws) (series_min raws) = Some 0 then Some 1
        else nan_div (nan_sub (raws ! i) (series_min raws))
               (nan_sub (series_max raws) (series_min raws)))"
  using assms by (simp add: normalization_def Let_def)

lemma normalization_Some:
  assumes "i < length raws" and "raws ! i = Some x"
    and "series_min raws = Some mn" and "series_max raws = Some mx"
  shows "normalization raws ! i =
     Some (if mx - mn = 0 then 1 else max epsilon ((x - mn) / (mx - mn)))"
  using assms by (simp add: normalization_nth clip_lower_def epsilon_def)

lemma Min_eq_Max_iff:
  fixes S :: "real set"
  assumes "finite S" and "S \<noteq> {}"
  shows "Min S = Max S \<longleftrightarrow> (\<exists>m. S = {m})"
proof
  assume eq: "Min S = Max S"
  have "x = Min S" if "x \<in> S" for x
  proof -
    have "Min S \<le> x" and "x \<le> Max S" using assms(1) that by simp_all
    with eq show ?thesis by simp
  qed
  moreover have "Min S \<in> S" using assms by simp
  ultimately have "S = {Min S}" by blast
  then show "\<exists>m. S = {m}" by blast
next
  assume "\<exists>m. S = {m}"
  then obtain m where "S = {m}" by blast
  then show "Min S = Max S" by simp
qed

lemma series_min_Min:
  assumes "Some x \<in> set raws"
  shows "series_min raws = Some (Min {y. Some y \<in> set raws})"
proof -
  have "x \<in> set (dropna raws)" using assms by (simp add: set_dropna)
  then have "dropna raws \<noteq> []" by auto
  then show ?thesis by (simp add: series_min_eq set_dropna)
qed

lemma series_max_Max:
  assumes "Some x \<in> set raws"
  shows "series_max raws = Some (Max {y. Some y \<in> set raws})"
proof -
  have "x \<in> set (dropna raws)" using assms by (simp add: set_dropna)
  then have "dropna raws \<noteq> []" by auto
  then show ?thesis by (simp add: series_max_eq set_dropna)
qed

lemma tied_iff:
  "nan_sub (series_max raws) (series_min raws) = Some 0 \<longleftrightarrow>
   (\<exists>m. {x. Some x \<in> set raws} = {m})"
proof (cases "dropna raws = []")
  case True
  then have "{x. Some x \<in> set raws} = {}" using set_dropna [of raws] by simp
  then show ?thesis using True by (simp add: series_min_eq series_max_eq)
next
  case False
  let ?S = "{x. Some x \<in> set raws}"
  have S: "?S = set (dropna raws)" by (simp add: set_dropna)
  have fin: "finite ?S" and ne: "?S \<noteq> {}" using False unfolding S by simp_all
  have "nan_sub (series_max raws) (series_min raws) = Some 0 \<longleftrightarrow> Min ?S = Max ?S"
    using False by (auto simp: series_min_eq series_max_eq set_dropna)
  then show ?thesis using Min_eq_Max_iff [OF fin ne] by simp
qed

text \<open>
  Claim C1. When the column of raw values is not empty and its maximum equals its
  minimum (all groups tied, a single group included), every group gets the normalized
  value 1.0, whatever its own raw value is.
\<close>

theorem normalization_tied_is_one:
  assumes "raws \<noteq> []" and "series_min raws = Some m" and "series_max raws = Some m"
  shows "normalization raws = map (\<lambda>r. Some 1) raws"
  using assms by (simp add: normalization_def clip_lower_def epsilon_def)

text \<open>Two tied groups, and a single group.\<close>

theorem normalization_tied_is_one_witness:
  "[Some 150, Some 150] \<noteq> [] \<and> series_min [Some 150, Some 150] = Some 150 \<and>
   series_max [Some 150, Some 150] = Some 150 \<and>
   normalization [Some 150, Some 150] = [Some 1, Some 1] \<and>
   normalization [Some 7] = [Some 1]"
proof -
  have a: "series_min [Some 150, Some 150] = Some 150"
    and b: "series_max [Some 150, Some 150] = Some 150"
    and c: "series_min [Some 7] = Some 7" and d: "series_max [Some 7] = Some 7"
    by (simp_all add: series_min_def series_max_def)
  show ?thesis
    using a b normalization_tied_is_one [OF _ a b] normalization_tied_is_one [OF _ c d]
    by simp
qed

text \<open>
  Claim C2, as amended. Every group whose raw value is a number gets a normalized
  value in the interval from 0.02 to 1.0. A group whose raw value is NaN (the mean of a
  group without any value) gets 1.0 when the numbers of the column are all tied (the
  column holds exactly one number, possibly several times), and NaN otherwise.
\<close>

theorem normalization_bounds_present:
  assumes "i < length raws"
  shows "(\<forall>x. raws ! i = Some x \<longrightarrow> within_bounds (normalization raws ! i)) \<and>
         (raws ! i = None \<longrightarrow>
            normalization raws ! i =
              (if \<exists>m. {x. Some x \<in> set raws} = {m} then Some 1 else None))"
proof (intro conjI allI impI)
  fix x assume x: "raws ! i = Some x"
  then have mem: "Some x \<in> set raws" using assms by (metis nth_mem)
  obtain mn where mn: "series_min raws = Some mn" "mn \<le> x"
    using series_min_defined [OF mem] by blast
  obtain mx where mx: "series_max raws = Some mx" "x \<le> mx"
    using series_max_defined [OF mem] by blast
  have eq: "normalization raws ! i =
      Some (if mx - mn = 0 then 1 else max epsilon ((x - mn) / (mx - mn)))"
    by (rule normalization_Some [OF assms x mn(1) mx(1)])
  show "within_bounds (normalization raws ! i)"
  proof (cases "mx - mn = 0")
    case True
    then show ?thesis using eq by (simp add: within_bounds_def)
  next
    case False
    then have pos: "0 < mx - mn" using mn(2) mx(2) by simp
    have "(x - mn) / (mx - mn) \<le> 1" using pos mx(2) by (simp add: divide_le_eq)
    then have "0.02 \<le> max epsilon ((x - mn) / (mx - mn))"
      and "max epsilon ((x - mn) / (mx - mn)) \<le> 1"
      by (simp_all add: epsilon_def max_def)
    then show ?thesis using eq False by (simp add: within_bounds_def)
  qed
next
  assume n: "raws ! i = None"
  show "normalization raws ! i =
              (if \<exists>m. {x. Some x \<in> set raws} = {m} then Some 1 else None)"
  proof (cases "\<exists>m. {x. Some x \<in> set raws} = {m}")
    case True
    then have "nan_sub (series_max raws) (series_min raws) = Some 0" by (simp add: tied_iff)
    then show ?thesis
      using True assms by (simp add: normalization_nth clip_lower_def epsilon_def)
  next
    case False
    then have "nan_sub (series_max raws) (series_min raws) \<noteq> Some 0" by (simp add: tied_iff)
    then show ?thesis
      using False assms n by (simp add: normalization_nth clip_lower_def)
  qed
qed

text \<open>
  A NaN next to two different numbers stays NaN, a NaN next to tied numbers becomes 1.0,
  and a number is normalized into the interval.
\<close>

theorem normalization_bounds_present_witness:
  "(1::nat) < length [Some 0, None, Some (1::real)] \<and>
   [Some 0, None, Some (1::real)] ! 1 = None \<and>
   normalization [Some 0, None, Some 1] ! 1 = None \<and>
   (1::nat) < length [Some 5, None, Some (5::real)] \<and>
   normalization [Some 5, None, Some 5] ! 1 = Some 1 \<and>
   [Some 0, None, Some (1::real)] ! 0 = Some 0 \<and>
   within_bounds (normalization [Some 0, None, Some 1] ! 0)"
proof -
  have S: "{x. Some x \<in> set [Some 0, None, Some (1::real)]} = {0, 1}"
    by auto
  have nt: "\<not> (\<exists>m. {x. Some x \<in> set [Some 0, None, Some (1::real)]} = {m})"
    unfolding S by (auto simp: doubleton_eq_iff)
  have T: "{x. Some x \<in> set [Some 5, None, Some (5::real)]} = {5}"
    by auto
  have a: "normalization [Some 0, None, Some 1] ! 1 = None"
    using normalization_bounds_present [of 1 "[Some 0, None, Some 1]"] nt by simp
  have b: "normalization [Some 5, None, Some 5] ! 1 = Some 1"
    using normalization_bounds_present [of 1 "[Some 5, None, Some 5]"] unfolding T by simp
  have c: "within_bounds (normalization [Some 0, None, Some 1] ! 0)"
    using normalization_bounds_present [of 0 "[Some 0, None, Some 1]"] by simp
  show ?thesis using a b c by simp
qed

text \<open>
  The claim as written fails on a column with a NaN next to two different numbers: the
  NaN passes through the division and through \<open>clip\<close>.
\<close>

theorem normalization_nan_counterexample:
  "normalization [Some 0, None, Some 1] = [Some 0.02, None, Some 1] \<and>
   \<not> list_all within_bounds (normalization [Some 0, None, Some 1])"
  by (simp add: normalization_def series_min_def series_max_def epsilon_def clip_lower_def
      within_bounds_def)

text \<open>
  Claim C3. The normalization is monotonic: of two groups of the same column with raw
  values \<open>a < b\<close>, the first gets a normalized value that is at most the one of the second.
\<close>

theorem normalization_monotone:
  assumes "i < length raws" and "j < length raws"
    and "raws ! i = Some a" and "raws ! j = Some b" and "a < b"
  shows "\<exists>na nb. normalization raws ! i = Some na \<and> normalization raws ! j = Some nb \<and> na \<le> nb"
proof -
  have mema: "Some a \<in> set raws" using assms(1,3) by (metis nth_mem)
  have memb: "Some b \<in> set raws" using assms(2,4) by (metis nth_mem)
  obtain mn where mn: "series_min raws = Some mn" "mn \<le> a"
    using series_min_defined [OF mema] by blast
  obtain mx where mx: "series_max raws = Some mx" "b \<le> mx"
    using series_max_defined [OF memb] by blast
  have pos: "0 < mx - mn" using mn(2) mx(2) assms(5) by simp
  have ni: "normalization raws ! i = Some (max epsilon ((a - mn) / (mx - mn)))"
    using normalization_Some [OF assms(1,3) mn(1) mx(1)] pos by simp
  have nj: "normalization raws ! j = Some (max epsilon ((b - mn) / (mx - mn)))"
    using normalization_Some [OF assms(2,4) mn(1) mx(1)] pos by simp
  have "(a - mn) / (mx - mn) \<le> (b - mn) / (mx - mn)"
    using pos assms(5) by (simp add: divide_le_cancel)
  then show ?thesis using ni nj by auto
qed

theorem normalization_monotone_witness:
  "(1::nat) < length [Some 5, Some 1, Some (9::real)] \<and>
   (0::nat) < length [Some 5, Some 1, Some (9::real)] \<and>
   [Some 5, Some 1, Some (9::real)] ! 1 = Some 1 \<and>
   [Some 5, Some 1, Some (9::real)] ! 0 = Some 5 \<and> (1::real) < 5 \<and>
   (\<exists>na nb. normalization [Some 5, Some 1, Some 9] ! 1 = Some na \<and>
      normalization [Some 5, Some 1, Some 9] ! 0 = Some nb \<and> na \<le> nb)"
  using normalization_monotone [of 1 "[Some 5, Some 1, Some 9]" 0 1 5] by simp

text \<open>
  Claim C4. When the maximum raw value exceeds the minimum, a raw value \<open>x\<close> is
  normalized to \<open>(x - min) / (max - min)\<close>, floored at 0.02, where \<open>min\<close> and
  \<open>max\<close> are the least and the greatest number of the column (which is what
  \<open>series_min\<close> and \<open>series_max\<close> return); and the raw values A: 0, B: 50, C: 100
  give A: 0.02, B: 0.5, C: 1.0, as do the same values in another order.
\<close>

theorem normalization_formula_and_example:
  "(\<forall>raws i x. i < length raws \<and> raws ! i = Some x \<and>
       Min {y. Some y \<in> set raws} < Max {y. Some y \<in> set raws} \<longrightarrow>
       normalization raws ! i =
         Some (max ((x - Min {y. Some y \<in> set raws}) /
                    (Max {y. Some y \<in> set raws} - Min {y. Some y \<in> set raws})) 0.02)) \<and>
   (\<forall>raws i x mn mx. i < length raws \<and> raws ! i = Some x \<and> series_min raws = Some mn \<and>
       series_max raws = Some mx \<and> mn < mx \<longrightarrow>
       normalization raws ! i = Some (max ((x - mn) / (mx - mn)) 0.02)) \<and>
   (\<forall>raws x. Some x \<in> set raws \<longrightarrow>
       series_min raws = Some (Min {y. Some y \<in> set raws}) \<and>
       series_max raws = Some (Max {y. Some y \<in> set raws})) \<and>
   map (\<lambda>r. (job_title r, normalized_value r))
     (temp_df m [(Str ''A'', Some 0), (Str ''B'', Some 50), (Str ''C'', Some 100)]) =
   [(Str ''A'', Some 0.02), (Str ''B'', Some 0.5), (Str ''C'', Some 1)] \<and>
   map (\<lambda>r. (job_title r, normalized_value r))
     (temp_df m [(Str ''A'', Some 50), (Str ''B'', Some 0), (Str ''C'', Some 100)]) =
   [(Str ''A'', Some 0.5), (Str ''B'', Some 0.02), (Str ''C'', Some 1)]"
proof (intro conjI allI impI)
  fix raws :: "real option list" and i x
  assume h: "i < length raws \<and> raws ! i = Some x \<and>
       Min {y. Some y \<in> set raws} < Max {y. Some y \<in> set raws}"
  then have mem: "Some x \<in> set raws" by (metis nth_mem)
  from h normalization_Some [of i raws x, OF _ _ series_min_Min [OF mem] series_max_Max [OF mem]]
  show "normalization raws ! i =
         Some (max ((x - Min {y. Some y \<in> set raws}) /
                    (Max {y. Some y \<in> set raws} - Min {y. Some y \<in> set raws})) 0.02)"
    by (simp add: epsilon_def max.commute)
next
  fix raws :: "real option list" and i x mn mx
  assume h: "i < length raws \<and> raws ! i = Some x \<and> series_min raws = Some mn \<and>
       series_max raws = Some mx \<and> mn < mx"
  then show "normalization raws ! i = Some (max ((x - mn) / (mx - mn)) 0.02)"
    using normalization_Some [of i raws x mn mx] by (simp add: epsilon_def max.commute)
next
  fix raws :: "real option list" and x
  assume "Some x \<in> set raws"
  then show "series_min raws = Some (Min {y. Some y \<in> set raws})"
    by (rule series_min_Min)
next
  fix raws :: "real option list" and x
  assume "Some x \<in> set raws"
  then show "series_max raws = Some (Max {y. Some y \<in> set raws})"
    by (rule series_max_Max)
next
  show "map (\<lambda>r. (job_title r, normalized_value r))
     (temp_df m [(Str ''A'', Some 0), (Str ''B'', Some 50), (Str ''C'', Some 100)]) =
   [(Str ''A'', Some 0.02), (Str ''B'', Some 0.5), (Str ''C'', Some 1)]"
    by (simp add: temp_df_def normalization_def series_min_def series_max_def epsilon_def
        clip_lower_def)
next
  show "map (\<lambda>r. (job_title r, normalized_value r))
     (temp_df m [(Str ''A'', Some 50), (Str ''B'', Some 0), (Str ''C'', Some 100)]) =
   [(Str ''A'', Some 0.5), (Str ''B'', Some 0.02), (Str ''C'', Some 1)]"
    by (simp add: temp_df_def normalization_def series_min_def series_max_def epsilon_def
        clip_lower_def)
qed

text \<open>A column whose first value is neither its minimum nor its maximum.\<close>

theorem normalization_formula_and_example_witness:
  "(0::nat) < length [Some 20, Some 10, Some (50::real)] \<and>
   [Some 20, Some 10, Some (50::real)] ! 0 = Some 20 \<and>
   Min {y. Some y \<in> set [Some 20, Some 10, Some (50::real)]} = 10 \<and>
   Max {y. Some y \<in> set [Some 20, Some 10, Some (50::real)]} = 50 \<and>
   normalization [Some 20, Some 10, Some 50] ! 0 = Some 0.25"
proof -
  have S: "{y. Some y \<in> set [Some 20, Some 10, Some (50::real)]} = {20, 10, 50}"
    by auto
  have mn: "Min {y. Some y \<in> set [Some 20, Some 10, Some (50::real)]} = 10"
    and mx: "Max {y. Some y \<in> set [Some 20, Some 10, Some (50::real)]} = 50"
    unfolding S by simp_all
  have "normalization [Some 20, Some 10, Some 50] ! 0 =
      Some (max ((20 - Min {y. Some y \<in> set [Some 20, Some 10, Some (50::real)]}) /
                 (Max {y. Some y \<in> set [Some 20, Some 10, Some (50::real)]} -
                  Min {y. Some y \<in> set [Some 20, Some 10, Some (50::real)]})) 0.02)"
    using normalization_formula_and_example [of "''Job Count''", THEN conjunct1, rule_format,
        of 0 "[Some 20, Some 10, Some 50]" 20] mn mx
    by simp
  then show ?thesis using mn mx by simp
qed

section \<open>Properties of the comparison table\<close>

lemma Some_in_map_option:
  "{g. Some g \<in> map_option f ` set xs} = f ` {x. Some x \<in> set xs}"
proof (intro set_eqI iffI)
  fix g assume "g \<in> {g. Some g \<in> map_option f ` set xs}"
  then obtain y where y: "y \<in> set xs" "Some g = map_option f y" by auto
  obtain x where "y = Some x" "g = f x" using y(2) by (cases y) auto
  then show "g \<in> f ` {x. Some x \<in> set xs}" using y(1) by auto
next
  fix g assume "g \<in> f ` {x. Some x \<in> set xs}"
  then obtain x where "Some x \<in> set xs" "g = f x" by auto
  then have "map_option f (Some x) \<in> map_option f ` set xs" by (intro imageI)
  then show "g \<in> {g. Some g \<in> map_option f ` set xs}" using \<open>g = f x\<close> by simp
qed

lemma set_group_labels: "set (group_labels kc) = {g. Some g \<in> set (keys_of kc)}"
proof (cases kc)
  case (Numeric xs)
  from Some_in_map_option [of Num xs] show ?thesis using Numeric by (simp add: set_dropna)
next
  case (Object xs)
  from Some_in_map_option [of Str xs] show ?thesis using Object by (simp add: set_dropna)
qed

lemma distinct_group_labels: "distinct (group_labels kc)"
  by (cases kc) (simp_all add: distinct_map inj_on_def)

lemma aggregation_groups:
  assumes "aggregation df col_name agg_func = Inr agg"
  shows "\<exists>kc. getitem df ''job_title'' = Inr kc \<and> map fst agg = group_labels kc"
  using assms
  by (auto simp: aggregation_def comp_def split: sum.splits if_splits option.splits column.splits)

lemma aggregation_uncaught:
  assumes "aggregation df col_name agg_func = Inl e"
  shows "uncaught e"
  using assms
  by (auto simp: aggregation_def getitem_def split: sum.splits if_splits option.splits column.splits)

lemma aggregation_no_key:
  assumes "map_of df ''job_title'' = None"
  shows "aggregation df col_name agg_func = Inl (KeyError ''job_title'')"
  using assms by (simp add: aggregation_def getitem_def)

lemma aggregation_no_column:
  assumes "map_of df ''job_title'' = Some kc" and "map_of df c = None" and "agg_func \<noteq> ''size''"
  shows "aggregation df (Some c) agg_func = Inl (KeyError c)"
  using assms by (simp add: aggregation_def getitem_def)

lemma temp_df_job_title: "map job_title (temp_df m agg) = map fst agg"
proof (rule nth_equalityI)
  show "length (map job_title (temp_df m agg)) = length (map fst agg)"
    by (simp add: temp_df_def length_normalization)
next
  fix i assume "i < length (map job_title (temp_df m agg))"
  then have "i < length agg" by (simp add: temp_df_def length_normalization)
  then show "map job_title (temp_df m agg) ! i = map fst agg ! i"
    by (simp add: temp_df_def length_normalization)
qed

lemma temp_df_metric: "r \<in> set (temp_df m agg) \<Longrightarrow> metric r = m"
  by (auto simp: temp_df_def)

lemma temp_df_raw:
  assumes "(g, v) \<in> set agg"
  shows "\<exists>r\<in>set (temp_df m agg). job_title r = g \<and> raw_value r = v \<and> metric r = m"
proof -
  obtain i where i: "i < length agg" "agg ! i = (g, v)"
    using assms by (auto simp: in_set_conv_nth)
  then have "temp_df m agg ! i =
      \<lparr>job_title = g, raw_value = v, normalized_value = normalization (map snd agg) ! i, metric = m\<rparr>"
    by (simp add: temp_df_def length_normalization)
  moreover have "i < length (temp_df m agg)"
    using i(1) by (simp add: temp_df_def length_normalization)
  ultimately show ?thesis by (metis nth_mem plot_row.select_convs(1,2,4))
qed

lemma plot_data_frames:
  assumes "plot_data df sel = Inr frames"
  shows "list_all2 (\<lambda>m f. \<exists>col ag agg. map_of (METRICS_CONFIG df) m = Some (col, ag) \<and>
            aggregation df col ag = Inr agg \<and> f = temp_df m agg) sel frames"
  using assms
proof (induction sel arbitrary: frames)
  case Nil
  then show ?case by simp
next
  case (Cons m rest)
  then show ?case
    by (auto split: option.splits sum.splits)
qed

lemma plot_data_uncaught:
  assumes "plot_data df sel = Inl e"
  shows "uncaught e"
  using assms
proof (induction sel)
  case Nil
  then show ?case by simp
next
  case (Cons m rest)
  then show ?case
    by (auto split: option.splits sum.splits dest: aggregation_uncaught)
qed

lemma plot_data_fails:
  assumes "m \<in> set sel" and "map_of (METRICS_CONFIG df) m = Some (col, ag)"
    and "aggregation df col ag = Inl e"
  shows "\<exists>e'. plot_data df sel = Inl e'"
  using assms(1)
proof (induction sel)
  case Nil
  then show ?case by simp
next
  case (Cons a rest)
  show ?case
  proof (cases "a = m")
    case True
    then show ?thesis using assms(2,3) by simp
  next
    case False
    then have "m \<in> set rest" using Cons.prems by simp
    then obtain e' where "plot_data df rest = Inl e'" using Cons.IH by blast
    then show ?thesis by (auto split: option.splits sum.splits)
  qed
qed

lemma plot_data_member:
  assumes "plot_data df sel = Inr frames" and "m \<in> set sel"
  shows "\<exists>col ag agg. map_of (METRICS_CONFIG df) m = Some (col, ag) \<and>
            aggregation df col ag = Inr agg \<and> temp_df m agg \<in> set frames"
proof -
  from assms(2) obtain i where i: "i < length sel" "sel ! i = m"
    by (auto simp: in_set_conv_nth)
  from plot_data_frames [OF assms(1)] i
  have "\<exists>col ag agg. map_of (METRICS_CONFIG df) m = Some (col, ag) \<and>
            aggregation df col ag = Inr agg \<and> frames ! i = temp_df m agg"
    and "i < length frames"
    by (auto simp: list_all2_conv_all_nth)
  then show ?thesis by (metis nth_mem)
qed

lemma plot_data_frame_groups:
  assumes "plot_data df sel = Inr frames" and "f \<in> set frames"
    and "getitem df ''job_title'' = Inr kc"
  shows "\<exists>m\<in>set sel. (\<forall>r\<in>set f. metric r = m) \<and> map job_title f = group_labels kc"
proof -
  from assms(2) obtain i where i: "i < length frames" "frames ! i = f"
    by (auto simp: in_set_conv_nth)
  from plot_data_frames [OF assms(1)] i
  obtain col ag agg where a: "aggregation df col ag = Inr agg" "f = temp_df (sel ! i) agg"
    and len: "i < length sel"
    by (auto simp: list_all2_conv_all_nth)
  from aggregation_groups [OF a(1)] assms(3) have "map fst agg = group_labels kc" by auto
  then have "map job_title f = group_labels kc" using a(2) by (simp add: temp_df_job_title)
  moreover have "\<forall>r\<in>set f. metric r = sel ! i" using a(2) by (auto dest: temp_df_metric)
  ultimately show ?thesis using len by (metis nth_mem)
qed

text \<open>
  Claim C7. With no metric selected the page builds no table: the guard shows the
  warning and stops the run, which is a report to the user and not an exception.
\<close>

theorem plot_df_no_metrics:
  "plot_df df [] = Inl NoMetricsSelected \<and> \<not> uncaught NoMetricsSelected"
  by (simp add: plot_df_def)

text \<open>
  Claim C5, as amended. For the mean, a group of the frame gets the arithmetic mean of
  the non-null values of the column on its rows; a group with no such value stays in
  the result, with the raw value NaN, and so it has a row for that metric in the
  comparison table (with raw value NaN) instead of being absent.
\<close>

theorem mean_keeps_group_without_values:
  assumes kc: "getitem df ''job_title'' = Inr kc" and vc: "getitem df c = Inr (Numeric vs)"
    and g: "Some g \<in> set (keys_of kc)"
    and xs: "xs = dropna (group_values g (keys_of kc) vs)"
    and v: "v = (if xs = [] then None else Some (sum_list xs / real (length xs)))"
  shows "(\<exists>agg. aggregation df (Some c) ''mean'' = Inr agg \<and> (g, v) \<in> set agg) \<and>
         (\<forall>m sel table. map_of (METRICS_CONFIG df) m = Some (Some c, ''mean'') \<and>
             m \<in> set sel \<and> plot_df df sel = Inr table \<longrightarrow>
             (\<exists>r\<in>set table. job_title r = g \<and> metric r = m \<and> raw_value r = v))"
proof -
  let ?agg = "map (\<lambda>g. (g, mean (dropna (group_values g (keys_of kc) vs)))) (group_labels kc)"
  have agg: "aggregation df (Some c) ''mean'' = Inr ?agg"
    using kc vc by (simp add: aggregation_def)
  have "g \<in> set (group_labels kc)" using g by (simp add: set_group_labels)
  then have mem: "(g, v) \<in> set ?agg" using xs v by (auto simp: mean_def)
  show ?thesis
  proof (intro conjI allI impI)
    show "\<exists>agg. aggregation df (Some c) ''mean'' = Inr agg \<and> (g, v) \<in> set agg"
      using agg mem by blast
  next
    fix m sel table
    assume h: "map_of (METRICS_CONFIG df) m = Some (Some c, ''mean'') \<and>
             m \<in> set sel \<and> plot_df df sel = Inr table"
    then obtain frames where fr: "plot_data df sel = Inr frames" "table = concat frames"
      by (auto simp: plot_df_def split: if_splits sum.splits)
    from h have msel: "m \<in> set sel" by simp
    from plot_data_member [OF fr(1) msel]
    obtain col ag agg' where a: "map_of (METRICS_CONFIG df) m = Some (col, ag)"
      "aggregation df col ag = Inr agg'" "temp_df m agg' \<in> set frames"
      by blast
    from a(1) h have "col = Some c" "ag = ''mean''" by simp_all
    with a(2) agg have "agg' = ?agg" by simp
    with a(3) have "temp_df m ?agg \<in> set frames" by simp
    moreover from temp_df_raw [OF mem]
    obtain r where "r \<in> set (temp_df m ?agg)" "job_title r = g \<and> raw_value r = v \<and> metric r = m"
      by blast
    ultimately show "\<exists>r\<in>set table. job_title r = g \<and> metric r = m \<and> raw_value r = v"
      using fr(2) by auto
  qed
qed

theorem mean_keeps_group_without_values_witness:
  "getitem [(''job_title'', Object [Some ''A'', Some ''B'']),
            (''salary_usd'', Numeric [None, Some 150])] ''job_title'' =
     Inr (Object [Some ''A'', Some ''B'']) \<and>
   getitem [(''job_title'', Object [Some ''A'', Some ''B'']),
            (''salary_usd'', Numeric [None, Some 150])] ''salary_usd'' =
     Inr (Numeric [None, Some 150]) \<and>
   Some (Str ''A'') \<in> set (keys_of (Object [Some ''A'', Some ''B''])) \<and>
   dropna (group_values (Str ''A'') (keys_of (Object [Some ''A'', Some ''B''])) [None, Some 150]) =
     ([] :: real list) \<and>
   (\<exists>agg. aggregation [(''job_title'', Object [Some ''A'', Some ''B'']),
                        (''salary_usd'', Numeric [None, Some 150])]
             (Some ''salary_usd'') ''mean'' = Inr agg \<and>
          (Str ''A'', None) \<in> set agg)"
proof -
  let ?df = "[(''job_title'', Object [Some ''A'', Some ''B'']),
              (''salary_usd'', Numeric [None, Some 150])]"
  have a: "getitem ?df ''job_title'' = Inr (Object [Some ''A'', Some ''B''])"
    and b: "getitem ?df ''salary_usd'' = Inr (Numeric [None, Some 150])"
    by (simp_all add: getitem_def)
  have c: "Some (Str ''A'') \<in> set (keys_of (Object [Some ''A'', Some ''B'']))" by simp
  have d: "dropna (group_values (Str ''A'') (keys_of (Object [Some ''A'', Some ''B'']))
             [None, Some 150]) = ([] :: real list)"
    by (simp add: group_values_def)
  have e: "None = (if ([] :: real list) = [] then None
                   else Some (sum_list [] / real (length ([] :: real list))))"
    by simp
  from mean_keeps_group_without_values [OF a b c d [symmetric] e]
  show ?thesis using a b c d by blast
qed

text \<open>
  The claim as written fails: job title A has no salary at all, and still has a row in
  the result of the aggregation and in the table.
\<close>

theorem mean_excludes_group_counterexample:
  "aggregation [(''job_title'', Object [Some ''A'', Some ''B'', Some ''C'']),
                (''salary_usd'', Numeric [None, Some 150, Some 100])]
     (Some ''salary_usd'') ''mean'' =
     Inr [(Str ''A'', None), (Str ''B'', Some 150), (Str ''C'', Some 100)] \<and>
   plot_df [(''job_title'', Object [Some ''A'', Some ''B'', Some ''C'']),
            (''salary_usd'', Numeric [None, Some 150, Some 100])]
     [''Average Salary (USD)''] =
     Inr [\<lparr>job_title = Str ''A'', raw_value = None, normalized_value = None,
            metric = ''Average Salary (USD)''\<rparr>,
          \<lparr>job_title = Str ''B'', raw_value = Some 150, normalized_value = Some 1,
            metric = ''Average Salary (USD)''\<rparr>,
          \<lparr>job_title = Str ''C'', raw_value = Some 100, normalized_value = Some 0.02,
            metric = ''Average Salary (USD)''\<rparr>]"
  by (simp add: plot_df_def METRICS_CONFIG_def aggregation_def getitem_def group_values_def
      mean_def temp_df_def normalization_def series_min_def series_max_def epsilon_def
      clip_lower_def)

text \<open>
  Claim C6. In a table that the page builds, every selected metric has rows for the
  same set of groups, the job titles of the frame; so no pair of a group and a metric is
  missing from the table, also when the group has no data for the metric.
\<close>

theorem every_metric_has_every_group:
  assumes "plot_df df sel = Inr table" and "m \<in> set sel"
  shows "\<exists>kc. getitem df ''job_title'' = Inr kc \<and>
           job_title ` {r \<in> set table. metric r = m} = {g. Some g \<in> set (keys_of kc)}"
proof -
  from assms(1) obtain frames where fr: "plot_data df sel = Inr frames" "table = concat frames"
    by (auto simp: plot_df_def split: if_splits sum.splits)
  from plot_data_member [OF fr(1) assms(2)]
  obtain col ag agg where a: "aggregation df col ag = Inr agg" "temp_df m agg \<in> set frames"
    by blast
  from aggregation_groups [OF a(1)]
  obtain kc where kc: "getitem df ''job_title'' = Inr kc" "map fst agg = group_labels kc"
    by blast
  have "job_title ` {r \<in> set table. metric r = m} = set (group_labels kc)"
  proof (intro set_eqI iffI)
    fix g assume "g \<in> job_title ` {r \<in> set table. metric r = m}"
    then obtain r f where r: "g = job_title r" "r \<in> set f" "f \<in> set frames"
      using fr(2) by auto
    from plot_data_frame_groups [OF fr(1) r(3) kc(1)]
    have "set (map job_title f) = set (group_labels kc)" by auto
    then show "g \<in> set (group_labels kc)" using r(1,2) by auto
  next
    fix g assume "g \<in> set (group_labels kc)"
    then have "g \<in> set (map job_title (temp_df m agg))"
      using kc(2) by (simp add: temp_df_job_title)
    then obtain r where r: "r \<in> set (temp_df m agg)" "job_title r = g" by auto
    then have "metric r = m" by (auto dest: temp_df_metric)
    moreover have "r \<in> set table" using r(1) a(2) fr(2) by auto
    ultimately show "g \<in> job_title ` {r \<in> set table. metric r = m}" using r(2) by auto
  qed
  then show ?thesis using kc(1) by (auto simp: set_group_labels)
qed

theorem every_metric_has_every_group_witness:
  "plot_df [(''job_title'', Object [Some ''B'', Some ''A'', Some ''A'']),
            (''salary_usd'', Numeric [Some 150, None, None])]
     [''Job Count'', ''Average Salary (USD)''] =
     Inr [\<lparr>job_title = Str ''A'', raw_value = Some 2, normalized_value = Some 1,
            metric = ''Job Count''\<rparr>,
          \<lparr>job_title = Str ''B'', raw_value = Some 1, normalized_value = Some 0.02,
            metric = ''Job Count''\<rparr>,
          \<lparr>job_title = Str ''A'', raw_value = None, normalized_value = Some 1,
            metric = ''Average Salary (USD)''\<rparr>,
          \<lparr>job_title = Str ''B'', raw_value = Some 150, normalized_value = Some 1,
            metric = ''Average Salary (USD)''\<rparr>] \<and>
   ''Average Salary (USD)'' \<in> set [''Job Count'', ''Average Salary (USD)''] \<and>
   (\<exists>kc. getitem [(''job_title'', Object [Some ''B'', Some ''A'', Some ''A'']),
                   (''salary_usd'', Numeric [Some 150, None, None])] ''job_title'' = Inr kc \<and>
      job_title ` {r \<in> set [\<lparr>job_title = Str ''A'', raw_value = Some 2, normalized_value = Some 1,
            metric = ''Job Count''\<rparr>,
          \<lparr>job_title = Str ''B'', raw_value = Some 1, normalized_value = Some 0.02,
            metric = ''Job Count''\<rparr>,
          \<lparr>job_title = Str ''A'', raw_value = None, normalized_value = Some 1,
            metric = ''Average Salary (USD)''\<rparr>,
          \<lparr>job_title = Str ''B'', raw_value = Some 150, normalized_value = Some 1,
            metric = ''Average Salary (USD)''\<rparr>]. metric r = ''Average Salary (USD)''} =
      {g. Some g \<in> set (keys_of kc)})"
proof -
  let ?df = "[(''job_title'', Object [Some ''B'', Some ''A'', Some ''A'']),
              (''salary_usd'', Numeric [Some 150, None, None])]"
  let ?sel = "[''Job Count'', ''Average Salary (USD)'']"
  let ?table = "[\<lparr>job_title = Str ''A'', raw_value = Some 2, normalized_value = Some 1,
            metric = ''Job Count''\<rparr>,
          \<lparr>job_title = Str ''B'', raw_value = Some 1, normalized_value = Some 0.02,
            metric = ''Job Count''\<rparr>,
          \<lparr>job_title = Str ''A'', raw_value = None, normalized_value = Some 1,
            metric = ''Average Salary (USD)''\<rparr>,
          \<lparr>job_title = Str ''B'', raw_value = Some 150, normalized_value = Some 1,
            metric = ''Average Salary (USD)''\<rparr>]"
  have a: "plot_df ?df ?sel = Inr ?table"
    by (simp add: plot_df_def METRICS_CONFIG_def aggregation_def getitem_def group_values_def
      mean_def temp_df_def normalization_def series_min_def series_max_def epsilon_def
      clip_lower_def)
  have b: "''Average Salary (USD)'' \<in> set ?sel" by simp
  from every_metric_has_every_group [OF a b] show ?thesis using a b by blast
qed

text \<open>
  Claim C8, as amended. The page does not validate columns. When the frame has no
  column \<open>job_title\<close>, the first selected metric raises a KeyError for it; when the
  column of the first selected metric is missing, \<open>groupby\<close> raises a KeyError for that
  column; and a missing column of any selected metric ends the run with an exception.
  Every failure of the loop is an exception that the script does not catch.
\<close>

theorem missing_column_is_uncaught_KeyError:
  "(map_of df ''job_title'' = None \<and> map_of (METRICS_CONFIG df) m \<noteq> None \<longrightarrow>
      plot_df df (m # rest) = Inl (KeyError ''job_title'') \<and> uncaught (KeyError ''job_title'')) \<and>
   (map_of df ''job_title'' \<noteq> None \<and> map_of (METRICS_CONFIG df) m = Some (Some c, ag) \<and>
    ag \<noteq> ''size'' \<and> map_of df c = None \<longrightarrow>
      plot_df df (m # rest) = Inl (KeyError c) \<and> uncaught (KeyError c)) \<and>
   (m \<in> set sel \<and> map_of (METRICS_CONFIG df) m = Some (Some c, ag) \<and>
    ag \<noteq> ''size'' \<and> map_of df c = None \<longrightarrow>
      (\<exists>e. plot_df df sel = Inl e \<and> uncaught e)) \<and>
   (\<forall>e. plot_df df (m # rest) = Inl e \<longrightarrow> uncaught e)"
proof (intro conjI allI impI)
  assume "map_of df ''job_title'' = None \<and> map_of (METRICS_CONFIG df) m \<noteq> None"
  then show "plot_df df (m # rest) = Inl (KeyError ''job_title'')"
    by (auto simp: plot_df_def aggregation_no_key)
next
  assume h: "map_of df ''job_title'' \<noteq> None \<and> map_of (METRICS_CONFIG df) m = Some (Some c, ag) \<and>
    ag \<noteq> ''size'' \<and> map_of df c = None"
  then obtain kc where "map_of df ''job_title'' = Some kc" by auto
  from aggregation_no_column [OF this, of c ag] h
  show "plot_df df (m # rest) = Inl (KeyError c)"
    by (auto simp: plot_df_def)
next
  assume h: "m \<in> set sel \<and> map_of (METRICS_CONFIG df) m = Some (Some c, ag) \<and>
    ag \<noteq> ''size'' \<and> map_of df c = None"
  have "\<exists>e. aggregation df (Some c) ag = Inl e"
  proof (cases "map_of df ''job_title''")
    case None
    then show ?thesis by (simp add: aggregation_no_key)
  next
    case (Some kc)
    from aggregation_no_column [OF this, of c ag] h show ?thesis by simp
  qed
  then obtain e0 where "aggregation df (Some c) ag = Inl e0" by blast
  with h plot_data_fails [of m sel df "Some c" ag e0]
  obtain e where e: "plot_data df sel = Inl e" by blast
  moreover have "sel \<noteq> []" using h by auto
  ultimately have "plot_df df sel = Inl e" by (simp add: plot_df_def)
  then show "\<exists>e. plot_df df sel = Inl e \<and> uncaught e"
    using plot_data_uncaught [OF e] by blast
next
  fix e assume "plot_df df (m # rest) = Inl e"
  then have "plot_data df (m # rest) = Inl e"
    by (auto simp: plot_df_def split: sum.splits)
  then show "uncaught e" by (rule plot_data_uncaught)
qed simp_all

theorem missing_column_is_uncaught_KeyError_witness:
  "map_of [(''job_title'', Object [Some ''A''])] ''job_title'' \<noteq> None \<and>
   map_of (METRICS_CONFIG [(''job_title'', Object [Some ''A''])]) ''Average Salary (USD)'' =
     Some (Some ''salary_usd'', ''mean'') \<and>
   ''mean'' \<noteq> ''size'' \<and> map_of [(''job_title'', Object [Some ''A''])] ''salary_usd'' = None \<and>
   plot_df [(''job_title'', Object [Some ''A''])] [''Average Salary (USD)'', ''Job Count''] =
     Inl (KeyError ''salary_usd'') \<and> uncaught (KeyError ''salary_usd'')"
proof -
  have a: "map_of (METRICS_CONFIG [(''job_title'', Object [Some ''A''])]) ''Average Salary (USD)'' =
     Some (Some ''salary_usd'', ''mean'')"
    by (simp add: METRICS_CONFIG_def)
  show ?thesis
    using a missing_column_is_uncaught_KeyError [of "[(''job_title'', Object [Some ''A''])]"
      "''Average Salary (USD)''" "[''Job Count'']" "''salary_usd''" "''mean''"]
    by simp
qed

text \<open>
  The claim as written fails: on a frame without the column \<open>job_title\<close> the run ends
  with the KeyError of \<open>groupby\<close>, an exception, and not with a reported error kind.
\<close>

theorem missing_group_key_counterexample:
  "plot_df [(''salary_usd'', Numeric [Some 1])] [''Job Count''] = Inl (KeyError ''job_title'') \<and>
   uncaught (KeyError ''job_title'')"
  by (simp add: plot_df_def METRICS_CONFIG_def aggregation_def getitem_def)

section \<open>Properties of the skills page\<close>






lemma length_Score_column: "length (Score_column stats) = length stats"
  by (simp add: Score_column_def Let_def)

lemma rank_inj: "rank a = rank b \<Longrightarrow> a = b"
  by (cases a; cases b) auto



lemma label_skills_length: "length (label_skills n stats) = length stats"
  by (simp add: label_skills_def Let_def length_Score_column)

lemma label_skills_nth:
  assumes "i < length stats"
  shows "label_skills n stats ! i =
     \<lparr>skill_name = skill_name (stats ! i), Average_Salary = Average_Salary (stats ! i),
      Job_Count = Job_Count (stats ! i), Score = Score_column stats ! i,
      Label = (if skill_name (stats ! i) \<in>
                    (\<lambda>r. skill_name (fst r)) ` set (nlargest n (zip stats (Score_column stats)))
               then skill_name (stats ! i) else [])\<rparr>"
  using assms by (simp add: label_skills_def Let_def length_Score_column)

lemma label_skills_Job_Count: "map Job_Count (label_skills n stats) = map Job_Count stats"
  by (rule nth_equalityI) (simp_all add: label_skills_length label_skills_nth)









lemma skill_stats_eq:
  "skill_stats p fdf =
     map (\<lambda>g. \<lparr>skill_name = g,
                Average_Salary = map_option round_half_even
                  (mean (dropna (group_values g (skill_keys fdf) (map salary_usd fdf)))),
                Job_Count = job_count p fdf g\<rparr>)
       (filter (\<lambda>g. 10 \<le> job_count p fdf g) (sort (remdups (dropna (skill_keys fdf)))))"
  by (simp add: skill_stats_def Let_def filter_map comp_def)

lemma skill_stats_names:
  "skill_name ` set (skill_stats p fdf) =
     {g. Some g \<in> set (skill_keys fdf) \<and> 10 \<le> job_count p fdf g}"
proof -
  have "map skill_name (skill_stats p fdf) =
        filter (\<lambda>g. 10 \<le> job_count p fdf g) (sort (remdups (dropna (skill_keys fdf))))"
    by (simp add: skill_stats_eq comp_def)
  then have "set (map skill_name (skill_stats p fdf)) =
        {g. Some g \<in> set (skill_keys fdf) \<and> 10 \<le> job_count p fdf g}"
    by (auto simp: set_dropna)
  then show ?thesis by simp
qed

lemma skill_stats_Job_Count:
  assumes "r \<in> set (skill_stats p fdf)"
  shows "10 \<le> Job_Count r \<and> Job_Count r = job_count p fdf (skill_name r)"
proof -
  from assms obtain g where "10 \<le> job_count p fdf g"
    and "r = \<lparr>skill_name = g,
               Average_Salary = map_option round_half_even
                 (mean (dropna (group_values g (skill_keys fdf) (map salary_usd fdf)))),
               Job_Count = job_count p fdf g\<rparr>"
    unfolding skill_stats_eq by auto
  then show ?thesis by simp
qed




text \<open>
  Claim C10. The table of skills keeps exactly the skills with a job count of at least
  ten, before any score is computed; so whatever experience levels are selected, every
  row of the table that the page plots has a job count of at least ten.
\<close>

theorem job_count_at_least_ten:
  "(\<forall>r\<in>set (skill_stats p fdf).
      10 \<le> Job_Count r \<and> Job_Count r = job_count p fdf (skill_name r)) \<and>
   skill_name ` set (skill_stats p fdf) =
     {g. Some g \<in> set (skill_keys fdf) \<and> 10 \<le> job_count p fdf g} \<and>
   (\<forall>df check_all manual out.
      skills_page p df check_all manual = Inr out \<longrightarrow> (\<forall>r\<in>set out. 10 \<le> Job_Count r))"
proof (intro conjI allI impI)
  show "\<forall>r\<in>set (skill_stats p fdf).
      10 \<le> Job_Count r \<and> Job_Count r = job_count p fdf (skill_name r)"
    using skill_stats_Job_Count by blast
next
  show "skill_name ` set (skill_stats p fdf) =
     {g. Some g \<in> set (skill_keys fdf) \<and> 10 \<le> job_count p fdf g}"
    by (rule skill_stats_names)
next
  fix df check_all manual out
  assume "skills_page p df check_all manual = Inr out"
  then obtain sel where out: "out = label_skills num_labels
      (skill_stats p (filter (\<lambda>r. experience_level r \<in> set sel) df))"
    by (auto simp: skills_page_def Let_def split: sum.splits if_splits)
  let ?stats = "skill_stats p (filter (\<lambda>r. experience_level r \<in> set sel) df)"
  have eq: "Job_Count ` set out = Job_Count ` set ?stats"
    using arg_cong [OF label_skills_Job_Count [of num_labels ?stats], of set]
    unfolding out by simp
  show "\<forall>r\<in>set out. 10 \<le> Job_Count r"
  proof
    fix r assume "r \<in> set out"
    then have "Job_Count r \<in> Job_Count ` set ?stats" using eq by blast
    then obtain r' where r': "r' \<in> set ?stats" "Job_Count r = Job_Count r'" by blast
    from skill_stats_Job_Count [OF r'(1)] have "10 \<le> Job_Count r'" by blast
    then show "10 \<le> Job_Count r" using r'(2) by simp
  qed
qed

theorem job_count_at_least_ten_witness:
  "skills_page Root
     (replicate 10 \<lparr>skills_list = Some ''Python'', experience_level = Some ''SE'',
                       salary_usd = Some 100, job_id = Some ''AI00001''\<rparr> @
      replicate 9 \<lparr>skills_list = Some ''SQL'', experience_level = Some ''SE'',
                      salary_usd = Some 50, job_id = Some ''AI00002''\<rparr>) True [] =
     Inr [\<lparr>skill_name = ''Python'', Average_Salary = Some 100, Job_Count = 10,
         Score = Fin 2, Label = ''Python''\<rparr>] \<and>
   10 \<le> Job_Count \<lparr>skill_name = ''Python'', Average_Salary = Some 100, Job_Count = 10,
         Score = Fin 2, Label = ''Python''\<rparr>"
proof -
  have a: "skills_page Root
     (replicate 10 \<lparr>skills_list = Some ''Python'', experience_level = Some ''SE'',
                       salary_usd = Some 100, job_id = Some ''AI00001''\<rparr> @
      replicate 9 \<lparr>skills_list = Some ''SQL'', experience_level = Some ''SE'',
                      salary_usd = Some 50, job_id = Some ''AI00002''\<rparr>) True [] =
     Inr [\<lparr>skill_name = ''Python'', Average_Salary = Some 100, Job_Count = 10,
         Score = Fin 2, Label = ''Python''\<rparr>]"
    by (simp add: skills_page_def eval_nat_numeral skill_stats_def skill_keys_def job_count_def
        group_values_def rename_skill_def mean_def round_half_even_def label_skills_def
        Score_column_def series_max_def nlargest_def num_labels_def)
  from job_count_at_least_ten [of Root, THEN conjunct2, THEN conjunct2, rule_format, OF a]
  have b: "\<And>r. r \<in> set [\<lparr>skill_name = ''Python'', Average_Salary = Some 100, Job_Count = 10,
         Score = Fin 2, Label = ''Python''\<rparr>] \<Longrightarrow> 10 \<le> Job_Count r" .
  have "10 \<le> Job_Count \<lparr>skill_name = ''Python'', Average_Salary = Some 100, Job_Count = 10,
         Score = Fin 2, Label = ''Python''\<rparr>"
    by (rule b) simp
  with a show ?thesis by (intro conjI)
qed

end
